theory Spec2Isabelle
  imports Main "HOL-Library.Word"
begin

section \<open>Sumo robot controller (src/sumo\_bot/SumoBotCode.ino)\<close>

text \<open>
  The controller is an Arduino Nano sketch: global variables, a \<open>loop()\<close> function called
  forever, and one handler per behaviour state. The model below is a shallow embedding:
  the globals are the fields of the record \<open>robot\<close>, every function of the sketch is a
  function from the record to the updated record, and everything the sketch reads from the
  hardware during one call of \<open>loop()\<close> is a field of the record \<open>inputs\<close>.

  \<^item> \<open>unsigned long\<close> is a 32-bit word: subtraction of time stamps wraps, comparisons are
    unsigned, as in the sketch.
  \<^item> \<open>int\<close> variables (distances, analog readings, wheel speeds) are modelled by \<open>int\<close>.
    The stored distances are results of \<open>readUltrasonic\<close> or the initial 999, the analog
    readings are 10-bit values and the speeds the handlers pass are the configured
    constants, so no 16-bit overflow is involved there. Where a statement ranges over
    arbitrary speeds it is restricted to \<open>-32767 .. 32767\<close>, the 16-bit values whose
    negation does not overflow.
  \<^item> What the sketch does to the hardware (\<open>analogWrite\<close> on the four motor channels and
    the blocking \<open>delay\<close>) is appended to the field \<open>hwLog\<close>, in program order.
    \<open>Serial\<close> output is diagnostic only and is not modelled.
\<close>

subsection \<open>Configuration macros\<close>

abbreviation SPEED_MAX :: int where "SPEED_MAX \<equiv> 255"
abbreviation SPEED_SEARCH :: int where "SPEED_SEARCH \<equiv> 180"
abbreviation SPEED_PUSH :: int where "SPEED_PUSH \<equiv> 255"
abbreviation SPEED_ARC_INNER :: int where "SPEED_ARC_INNER \<equiv> 153"
abbreviation SPEED_ARC_OUTER :: int where "SPEED_ARC_OUTER \<equiv> 230"
abbreviation SPEED_CLOSE_INNER :: int where "SPEED_CLOSE_INNER \<equiv> 165"
abbreviation SPEED_CLOSE_OUTER :: int where "SPEED_CLOSE_OUTER \<equiv> 204"

abbreviation OPENING_SPIN_TIME :: "32 word" where "OPENING_SPIN_TIME \<equiv> 500"
abbreviation OPENING_CHARGE_TIME :: "32 word" where "OPENING_CHARGE_TIME \<equiv> 800"
abbreviation BORDER_REVERSE_TIME :: "32 word" where "BORDER_REVERSE_TIME \<equiv> 300"
abbreviation BORDER_TURN_TIME :: "32 word" where "BORDER_TURN_TIME \<equiv> 400"
abbreviation BORDER_REV_SIDE :: "32 word" where "BORDER_REV_SIDE \<equiv> 200"
abbreviation BORDER_TURN_SIDE :: "32 word" where "BORDER_TURN_SIDE \<equiv> 300"
abbreviation BORDER_REV_BACK :: "32 word" where "BORDER_REV_BACK \<equiv> 300"
abbreviation BORDER_TURN_BACK :: "32 word" where "BORDER_TURN_BACK \<equiv> 300"

abbreviation ENEMY_CLOSE :: int where "ENEMY_CLOSE \<equiv> 30"
abbreviation ENEMY_MEDIUM :: int where "ENEMY_MEDIUM \<equiv> 80"
abbreviation ENEMY_FAR :: int where "ENEMY_FAR \<equiv> 150"
abbreviation ENEMY_LOST :: int where "ENEMY_LOST \<equiv> 50"
abbreviation ENEMY_MIN :: int where "ENEMY_MIN \<equiv> 10"

abbreviation IR_THRESHOLD :: int where "IR_THRESHOLD \<equiv> 512"

abbreviation ULTRA_INTERVAL :: "32 word" where "ULTRA_INTERVAL \<equiv> 50"
abbreviation ULTRA_SIDE_INTERVAL :: "32 word" where "ULTRA_SIDE_INTERVAL \<equiv> 200"

abbreviation DEADLOCK_TIME :: "32 word" where "DEADLOCK_TIME \<equiv> 2000"

subsection \<open>State, globals, hardware\<close>

datatype State =
  STATE_INIT
| STATE_OPENING_MOVE
| STATE_SEARCH
| STATE_ATTACK
| STATE_PUSH
| STATE_BORDER_ESCAPE

text \<open>The four PWM channels of the differential drive.\<close>

datatype pin = MOTOR_LEFT_FWD | MOTOR_LEFT_BACK | MOTOR_RIGHT_FWD | MOTOR_RIGHT_BACK

text \<open>One effect on the hardware: a call \<open>analogWrite(pin, value)\<close> with the value as
  passed, or a blocking \<open>delay\<close> of so many milliseconds.\<close>

datatype hw_event = AnalogWrite pin int | Delay nat

text \<open>The global variables of the sketch, with the hardware log as last field.\<close>

record robot =
  currentState :: State
  borderFrontRight :: bool
  borderFrontLeft :: bool
  borderRight :: bool
  borderLeft :: bool
  borderBack :: bool
  borderDetected :: bool
  distanceFront :: int
  distanceLeft :: int
  distanceRight :: int
  previousMillis :: "32 word"
  stateStartTime :: "32 word"
  lastUltraFront :: "32 word"
  lastUltraSide :: "32 word"
  pushStartTime :: "32 word"
  lastEnemyDistance :: int
  enemyDetected :: bool
  enemyDirection :: int
  hwLog :: "hw_event list"

text \<open>
  What one call of \<open>loop()\<close> reads from outside:
  \<^item> \<open>millis\<close>: the value of \<open>millis()\<close> at the top of \<open>loop()\<close>;
  \<^item> \<open>irFrontRight\<close> ... \<open>irBack\<close>: the five \<open>analogRead\<close> values of \<open>readAllIRSensors\<close>;
  \<^item> \<open>irFrontRightAgain\<close>, \<open>irFrontLeftAgain\<close>: the second pair of \<open>analogRead\<close> values,
    taken by \<open>executeBorderEscape\<close> when both front sensors are triggered;
  \<^item> \<open>echoFront\<close>, \<open>echoLeft\<close>, \<open>echoRight\<close>: for each range sensor, the value of the local
    variable \<open>distance\<close> of \<open>readUltrasonic\<close> before validation, that is the echo time
    converted to centimetres and truncated to \<open>int\<close> (the conversion is floating point and
    stays outside the model). An echo timeout makes \<open>pulseIn\<close> return 0, which is the
    value 0 here. A value is used only if the sensor is polled on this tick.
\<close>

record inputs =
  millis :: "32 word"
  irFrontRight :: int
  irFrontLeft :: int
  irRight :: int
  irLeft :: int
  irBack :: int
  irFrontRightAgain :: int
  irFrontLeftAgain :: int
  echoFront :: int
  echoLeft :: int
  echoRight :: int

text \<open>The initialisers of the globals.\<close>

definition initial_robot :: robot where
  "initial_robot =
     \<lparr> currentState = STATE_INIT,
       borderFrontRight = False, borderFrontLeft = False, borderRight = False,
       borderLeft = False, borderBack = False, borderDetected = False,
       distanceFront = 999, distanceLeft = 999, distanceRight = 999,
       previousMillis = 0, stateStartTime = 0, lastUltraFront = 0, lastUltraSide = 0,
       pushStartTime = 0, lastEnemyDistance = 999,
       enemyDetected = False, enemyDirection = 0,
       hwLog = [] \<rparr>"

subsection \<open>Sensor reading functions\<close>

definition readAllIRSensors :: "inputs \<Rightarrow> robot \<Rightarrow> robot" where
  "readAllIRSensors inp s =
     (let frValue = irFrontRight inp;
          flValue = irFrontLeft inp;
          rValue = irRight inp;
          lValue = irLeft inp;
          bValue = irBack inp
      in s\<lparr> borderFrontRight := (frValue > IR_THRESHOLD),
             borderFrontLeft := (flValue > IR_THRESHOLD),
             borderRight := (rValue > IR_THRESHOLD),
             borderLeft := (lValue > IR_THRESHOLD),
             borderBack := (bValue > IR_THRESHOLD),
             borderDetected := (frValue > IR_THRESHOLD \<or> flValue > IR_THRESHOLD \<or>
                                rValue > IR_THRESHOLD \<or> lValue > IR_THRESHOLD \<or>
                                bValue > IR_THRESHOLD) \<rparr>)"

text \<open>
  \<open>readUltrasonic\<close>: the trigger pulse and the echo measurement are hardware; what the
  function computes is the validation of the converted echo, its argument here.
\<close>

definition readUltrasonic :: "int \<Rightarrow> int" where
  "readUltrasonic distance = (if distance < 2 \<or> distance > 400 then 999 else distance)"

definition updateEnemyStatus :: "robot \<Rightarrow> robot" where
  "updateEnemyStatus s =
     (let frontEnemy = (distanceFront s \<ge> ENEMY_MIN \<and> distanceFront s \<le> ENEMY_FAR);
          leftEnemy = (distanceLeft s \<ge> ENEMY_MIN \<and> distanceLeft s \<le> ENEMY_FAR);
          rightEnemy = (distanceRight s \<ge> ENEMY_MIN \<and> distanceRight s \<le> ENEMY_FAR);
          s1 = s\<lparr> enemyDetected := (frontEnemy \<or> leftEnemy \<or> rightEnemy) \<rparr>
      in if frontEnemy then s1\<lparr> enemyDirection := 0 \<rparr>
         else if leftEnemy \<and> \<not> rightEnemy then s1\<lparr> enemyDirection := - 1 \<rparr>
         else if rightEnemy \<and> \<not> leftEnemy then s1\<lparr> enemyDirection := 1 \<rparr>
         else if leftEnemy \<and> rightEnemy
              then s1\<lparr> enemyDirection := (if distanceLeft s < distanceRight s then - 1 else 1) \<rparr>
         else s1)"

definition readUltrasonicSensors :: "32 word \<Rightarrow> inputs \<Rightarrow> robot \<Rightarrow> robot" where
  "readUltrasonicSensors currentMillis inp s =
     (let s1 = (if currentMillis - lastUltraFront s \<ge> ULTRA_INTERVAL
                then s\<lparr> distanceFront := readUltrasonic (echoFront inp),
                        lastUltraFront := currentMillis \<rparr>
                else s);
          s2 = (if currentMillis - lastUltraSide s1 \<ge> ULTRA_SIDE_INTERVAL
                then s1\<lparr> distanceLeft := readUltrasonic (echoLeft inp),
                         distanceRight := readUltrasonic (echoRight inp),
                         lastUltraSide := currentMillis \<rparr>
                else s1)
      in updateEnemyStatus s2)"

subsection \<open>Motor control functions\<close>

definition analogWrite :: "pin \<Rightarrow> int \<Rightarrow> robot \<Rightarrow> robot" where
  "analogWrite p v s = s\<lparr> hwLog := hwLog s @ [AnalogWrite p v] \<rparr>"

definition delay :: "nat \<Rightarrow> robot \<Rightarrow> robot" where
  "delay ms s = s\<lparr> hwLog := hwLog s @ [Delay ms] \<rparr>"

definition setMotors :: "int \<Rightarrow> int \<Rightarrow> robot \<Rightarrow> robot" where
  "setMotors leftSpeed rightSpeed s =
     (let s1 = (if leftSpeed > 0
                then analogWrite MOTOR_LEFT_BACK 0 (analogWrite MOTOR_LEFT_FWD leftSpeed s)
                else if leftSpeed < 0
                then analogWrite MOTOR_LEFT_BACK (- leftSpeed) (analogWrite MOTOR_LEFT_FWD 0 s)
                else analogWrite MOTOR_LEFT_BACK 0 (analogWrite MOTOR_LEFT_FWD 0 s))
      in if rightSpeed > 0
         then analogWrite MOTOR_RIGHT_BACK 0 (analogWrite MOTOR_RIGHT_FWD rightSpeed s1)
         else if rightSpeed < 0
         then analogWrite MOTOR_RIGHT_BACK (- rightSpeed) (analogWrite MOTOR_RIGHT_FWD 0 s1)
         else analogWrite MOTOR_RIGHT_BACK 0 (analogWrite MOTOR_RIGHT_FWD 0 s1))"

definition stopMotors :: "robot \<Rightarrow> robot" where
  "stopMotors s = setMotors 0 0 s"

definition moveForward :: "int \<Rightarrow> robot \<Rightarrow> robot" where
  "moveForward speed s = setMotors speed speed s"

definition moveBackward :: "int \<Rightarrow> robot \<Rightarrow> robot" where
  "moveBackward speed s = setMotors (- speed) (- speed) s"

definition rotateClockwise :: "int \<Rightarrow> robot \<Rightarrow> robot" where
  "rotateClockwise speed s = setMotors speed (- speed) s"

definition rotateCounterClockwise :: "int \<Rightarrow> robot \<Rightarrow> robot" where
  "rotateCounterClockwise speed s = setMotors (- speed) speed s"

subsection \<open>State execution functions\<close>

text \<open>
  A handler that ends a branch with \<open>return\<close> skips the rest of its body. In
  \<open>executeAttack\<close> and \<open>executePush\<close> the rest of the body is reached from two places; it
  is bound once (\<open>approach\<close>, \<open>push\<close>) and used in both.
\<close>

definition executeOpeningMove :: "32 word \<Rightarrow> robot \<Rightarrow> robot" where
  "executeOpeningMove currentMillis s =
     (let elapsed = currentMillis - stateStartTime s
      in if elapsed < OPENING_SPIN_TIME then rotateClockwise SPEED_MAX s
         else if elapsed < OPENING_SPIN_TIME + OPENING_CHARGE_TIME then moveForward SPEED_MAX s
         else s\<lparr> currentState := STATE_SEARCH, stateStartTime := currentMillis \<rparr>)"

definition executeSearch :: "32 word \<Rightarrow> robot \<Rightarrow> robot" where
  "executeSearch currentMillis s =
     (if enemyDetected s
      then if enemyDirection s = 0
           then s\<lparr> currentState := STATE_ATTACK, stateStartTime := currentMillis \<rparr>
           else (let s1 = (if enemyDirection s = - 1
                           then rotateCounterClockwise SPEED_SEARCH s
                           else rotateClockwise SPEED_SEARCH s);
                     s2 = delay 200 s1
                 in s2\<lparr> currentState := STATE_ATTACK, stateStartTime := currentMillis \<rparr>)
      else rotateClockwise SPEED_SEARCH s)"

definition executeAttack :: "32 word \<Rightarrow> robot \<Rightarrow> robot" where
  "executeAttack currentMillis s =
     (let approach =
            (if distanceFront s \<le> ENEMY_CLOSE
             then s\<lparr> currentState := STATE_PUSH, stateStartTime := currentMillis,
                     pushStartTime := currentMillis \<rparr>
             else if distanceFront s > ENEMY_MEDIUM
             then setMotors SPEED_ARC_INNER SPEED_ARC_OUTER s
             else setMotors SPEED_CLOSE_INNER SPEED_CLOSE_OUTER s)
      in if \<not> enemyDetected s \<or> distanceFront s > ENEMY_LOST
         then (let lostTime = currentMillis - stateStartTime s
               in if lostTime > 1000
                  then s\<lparr> currentState := STATE_SEARCH, stateStartTime := currentMillis \<rparr>
                  else approach)
         else approach)"

definition executePush :: "32 word \<Rightarrow> robot \<Rightarrow> robot" where
  "executePush currentMillis s =
     (let pushDuration = currentMillis - pushStartTime s;
          push =
            (let s1 = s\<lparr> lastEnemyDistance := distanceFront s \<rparr>
             in if \<not> enemyDetected s1 \<or> distanceFront s1 > ENEMY_LOST
                then s1\<lparr> currentState := STATE_SEARCH, stateStartTime := currentMillis \<rparr>
                else moveForward SPEED_PUSH s1)
      in if pushDuration > DEADLOCK_TIME
         then (if \<bar>distanceFront s - lastEnemyDistance s\<bar> < 5
               then (let s1 = moveBackward SPEED_MAX s;
                         s2 = delay 300 s1;
                         s3 = rotateClockwise SPEED_MAX s2;
                         s4 = delay 300 s3
                     in s4\<lparr> currentState := STATE_ATTACK, stateStartTime := currentMillis \<rparr>)
               else push)
         else push)"

definition executeBorderEscape :: "32 word \<Rightarrow> inputs \<Rightarrow> robot \<Rightarrow> robot" where
  "executeBorderEscape currentMillis inp s =
     (let elapsed = currentMillis - stateStartTime s;
          frontBorder = (borderFrontRight s \<or> borderFrontLeft s);
          sideBorder = (borderRight s \<or> borderLeft s);
          backBorder = borderBack s
      in if frontBorder
         then (if elapsed < BORDER_REVERSE_TIME then moveBackward SPEED_MAX s
               else if elapsed < BORDER_REVERSE_TIME + BORDER_TURN_TIME
               then (if borderFrontRight s \<and> \<not> borderFrontLeft s
                     then rotateCounterClockwise SPEED_MAX s
                     else if borderFrontLeft s \<and> \<not> borderFrontRight s
                     then rotateClockwise SPEED_MAX s
                     else (let frValue = irFrontRightAgain inp;
                               flValue = irFrontLeftAgain inp
                           in if frValue > flValue
                              then rotateCounterClockwise SPEED_MAX s
                              else rotateClockwise SPEED_MAX s))
               else (if \<not> borderDetected s
                     then s\<lparr> currentState := STATE_SEARCH, stateStartTime := currentMillis \<rparr>
                     else s\<lparr> stateStartTime := currentMillis - BORDER_REVERSE_TIME \<rparr>))
         else if sideBorder
         then (if elapsed < BORDER_REV_SIDE then moveBackward SPEED_MAX s
               else if elapsed < BORDER_REV_SIDE + BORDER_TURN_SIDE
               then (if borderLeft s then rotateClockwise SPEED_MAX s
                     else rotateCounterClockwise SPEED_MAX s)
               else (if \<not> borderDetected s
                     then s\<lparr> currentState := STATE_SEARCH, stateStartTime := currentMillis \<rparr>
                     else s\<lparr> stateStartTime := currentMillis - BORDER_REV_SIDE \<rparr>))
         else if backBorder
         then (if elapsed < BORDER_REV_BACK then moveForward SPEED_MAX s
               else if elapsed < BORDER_REV_BACK + BORDER_TURN_BACK
               then rotateClockwise SPEED_MAX s
               else (if \<not> borderDetected s
                     then s\<lparr> currentState := STATE_SEARCH, stateStartTime := currentMillis \<rparr>
                     else s\<lparr> stateStartTime := currentMillis - BORDER_REV_BACK \<rparr>))
         else s)"

subsection \<open>Main loop\<close>

text \<open>The priority rule of \<open>loop()\<close> (the \<open>if\<close> right after the border sensors are read).\<close>

definition borderPriority :: "32 word \<Rightarrow> robot \<Rightarrow> robot" where
  "borderPriority currentMillis s =
     (if borderDetected s \<and> currentState s \<noteq> STATE_BORDER_ESCAPE
      then s\<lparr> currentState := STATE_BORDER_ESCAPE, stateStartTime := currentMillis \<rparr>
      else s)"

text \<open>The \<open>switch\<close> of \<open>loop()\<close>.\<close>

definition dispatch :: "32 word \<Rightarrow> inputs \<Rightarrow> robot \<Rightarrow> robot" where
  "dispatch currentMillis inp s =
     (case currentState s of
        STATE_INIT \<Rightarrow> s
      | STATE_OPENING_MOVE \<Rightarrow> executeOpeningMove currentMillis s
      | STATE_SEARCH \<Rightarrow> executeSearch currentMillis s
      | STATE_ATTACK \<Rightarrow> executeAttack currentMillis s
      | STATE_PUSH \<Rightarrow> executePush currentMillis s
      | STATE_BORDER_ESCAPE \<Rightarrow> executeBorderEscape currentMillis inp s)"

definition loop :: "inputs \<Rightarrow> robot \<Rightarrow> robot" where
  "loop inp s =
     (let currentMillis = millis inp;
          s1 = readAllIRSensors inp s;
          s2 = borderPriority currentMillis s1;
          s3 = readUltrasonicSensors currentMillis inp s2
      in dispatch currentMillis inp s3)"

text \<open>Successive calls of \<open>loop()\<close>, one per element of the list of inputs.\<close>

fun run :: "robot \<Rightarrow> inputs list \<Rightarrow> robot" where
  "run s [] = s"
| "run s (i # is) = run (loop i s) is"

text \<open>
  \<open>setup()\<close>: motors stopped, border sensors read once, the five-second countdown, then the
  opening move starts. The \<open>inputs\<close> give the analog readings of the sensor test and the
  value of \<open>millis()\<close> read at the end.
\<close>

definition setup_robot :: "inputs \<Rightarrow> robot \<Rightarrow> robot" where
  "setup_robot inp s =
     (let s1 = stopMotors s;
          s2 = readAllIRSensors inp s1;
          s3 = delay 1000 (delay 1000 (delay 1000 (delay 1000 (delay 1000 s2))))
      in s3\<lparr> currentState := STATE_OPENING_MOVE, stateStartTime := millis inp \<rparr>)"

subsection \<open>Vocabulary for the properties\<close>

text \<open>A range reading that counts as a target: the test applied three times by
  \<open>updateEnemyStatus\<close>.\<close>

definition inEnemyRange :: "int \<Rightarrow> bool" where
  "inEnemyRange d = (d \<ge> ENEMY_MIN \<and> d \<le> ENEMY_FAR)"

text \<open>The four channel writes of one \<open>setMotors\<close> call, in program order.\<close>

definition motorWrites :: "int \<Rightarrow> int \<Rightarrow> hw_event list" where
  "motorWrites l r =
     [AnalogWrite MOTOR_LEFT_FWD (if l > 0 then l else 0),
      AnalogWrite MOTOR_LEFT_BACK (if l < 0 then - l else 0),
      AnalogWrite MOTOR_RIGHT_FWD (if r > 0 then r else 0),
      AnalogWrite MOTOR_RIGHT_BACK (if r < 0 then - r else 0)]"

text \<open>A hardware event that respects the configured maximum duty.\<close>

fun withinMax :: "hw_event \<Rightarrow> bool" where
  "withinMax (AnalogWrite p v) = (0 \<le> v \<and> v \<le> SPEED_MAX)"
| "withinMax (Delay n) = True"

text \<open>The behaviour state after each tick of a run.\<close>

fun trace :: "robot \<Rightarrow> inputs list \<Rightarrow> State list" where
  "trace s [] = []"
| "trace s (i # is) = currentState (loop i s) # trace (loop i s) is"


text \<open>The globals at the moment \<open>loop()\<close> reaches its \<open>switch\<close>: border sensors read,
  priority rule applied, range sensors polled and the enemy estimate updated.\<close>

definition sensed :: "inputs \<Rightarrow> robot \<Rightarrow> robot" where
  "sensed inp s =
     readUltrasonicSensors (millis inp) inp
       (borderPriority (millis inp) (readAllIRSensors inp s))"



text \<open>A tick at time \<open>t\<close> on which no border sensor is over the threshold and the range
  sensors, if polled, report \<open>f\<close>, \<open>l\<close> and \<open>r\<close>.\<close>

definition tick :: "32 word \<Rightarrow> int \<Rightarrow> int \<Rightarrow> int \<Rightarrow> inputs" where
  "tick t f l r =
     \<lparr> millis = t, irFrontRight = 100, irFrontLeft = 100, irRight = 100, irLeft = 100,
       irBack = 100, irFrontRightAgain = 100, irFrontLeftAgain = 100,
       echoFront = f, echoLeft = l, echoRight = r \<rparr>"

text \<open>The robot as \<open>setup()\<close> leaves it when the countdown ends at 5000 ms.\<close>

definition booted :: robot where
  "booted = setup_robot (tick 5000 0 0 0) initial_robot"

section \<open>Basic facts about the model\<close>

subsection \<open>Sensor stage and priority rule\<close>

lemma setMotors_eq: "setMotors l r s = s\<lparr> hwLog := hwLog s @ motorWrites l r \<rparr>"
  by (simp add: setMotors_def analogWrite_def motorWrites_def)

lemmas drive_defs = moveForward_def moveBackward_def rotateClockwise_def
  rotateCounterClockwise_def stopMotors_def delay_def setMotors_eq

lemmas sel_if =
  if_distrib [of currentState] if_distrib [of stateStartTime] if_distrib [of pushStartTime]
  if_distrib [of lastEnemyDistance] if_distrib [of hwLog]
  if_distrib [of distanceFront] if_distrib [of distanceLeft] if_distrib [of distanceRight]
  if_distrib [of enemyDetected] if_distrib [of enemyDirection]
  if_distrib [of borderFrontRight] if_distrib [of borderFrontLeft] if_distrib [of borderRight]
  if_distrib [of borderLeft] if_distrib [of borderBack] if_distrib [of borderDetected]

lemma readAllIRSensors_frame [simp]:
  "currentState (readAllIRSensors inp s) = currentState s"
  "stateStartTime (readAllIRSensors inp s) = stateStartTime s"
  "pushStartTime (readAllIRSensors inp s) = pushStartTime s"
  "lastEnemyDistance (readAllIRSensors inp s) = lastEnemyDistance s"
  "hwLog (readAllIRSensors inp s) = hwLog s"
  "distanceFront (readAllIRSensors inp s) = distanceFront s"
  "distanceLeft (readAllIRSensors inp s) = distanceLeft s"
  "distanceRight (readAllIRSensors inp s) = distanceRight s"
  "enemyDetected (readAllIRSensors inp s) = enemyDetected s"
  "enemyDirection (readAllIRSensors inp s) = enemyDirection s"
  "lastUltraFront (readAllIRSensors inp s) = lastUltraFront s"
  "lastUltraSide (readAllIRSensors inp s) = lastUltraSide s"
  by (simp_all add: readAllIRSensors_def Let_def)

lemma readAllIRSensors_detected:
  "borderDetected (readAllIRSensors inp s) =
     (borderFrontRight (readAllIRSensors inp s) \<or> borderFrontLeft (readAllIRSensors inp s) \<or>
      borderRight (readAllIRSensors inp s) \<or> borderLeft (readAllIRSensors inp s) \<or>
      borderBack (readAllIRSensors inp s))"
  by (simp add: readAllIRSensors_def Let_def)

lemma borderPriority_frame [simp]:
  "pushStartTime (borderPriority t s) = pushStartTime s"
  "lastEnemyDistance (borderPriority t s) = lastEnemyDistance s"
  "hwLog (borderPriority t s) = hwLog s"
  "distanceFront (borderPriority t s) = distanceFront s"
  "distanceLeft (borderPriority t s) = distanceLeft s"
  "distanceRight (borderPriority t s) = distanceRight s"
  "enemyDetected (borderPriority t s) = enemyDetected s"
  "enemyDirection (borderPriority t s) = enemyDirection s"
  "lastUltraFront (borderPriority t s) = lastUltraFront s"
  "lastUltraSide (borderPriority t s) = lastUltraSide s"
  "borderFrontRight (borderPriority t s) = borderFrontRight s"
  "borderFrontLeft (borderPriority t s) = borderFrontLeft s"
  "borderRight (borderPriority t s) = borderRight s"
  "borderLeft (borderPriority t s) = borderLeft s"
  "borderBack (borderPriority t s) = borderBack s"
  "borderDetected (borderPriority t s) = borderDetected s"
  by (simp_all add: borderPriority_def)

lemma borderPriority_quiet:
  "\<not> borderDetected s \<Longrightarrow> borderPriority t s = s"
  by (simp add: borderPriority_def)

lemma borderPriority_fires:
  "borderDetected s \<Longrightarrow> currentState s \<noteq> STATE_BORDER_ESCAPE \<Longrightarrow>
     borderPriority t s = s\<lparr> currentState := STATE_BORDER_ESCAPE, stateStartTime := t \<rparr>"
  by (simp add: borderPriority_def)

lemma updateEnemyStatus_eq:
  "updateEnemyStatus s =
     s\<lparr> enemyDetected := (inEnemyRange (distanceFront s) \<or> inEnemyRange (distanceLeft s) \<or>
                            inEnemyRange (distanceRight s)),
        enemyDirection :=
          (if inEnemyRange (distanceFront s) then 0
           else if inEnemyRange (distanceLeft s) \<and> \<not> inEnemyRange (distanceRight s) then - 1
           else if inEnemyRange (distanceRight s) \<and> \<not> inEnemyRange (distanceLeft s) then 1
           else if inEnemyRange (distanceLeft s) \<and> inEnemyRange (distanceRight s)
                then (if distanceLeft s < distanceRight s then - 1 else 1)
           else enemyDirection s) \<rparr>"
  unfolding updateEnemyStatus_def Let_def inEnemyRange_def [symmetric]
  by simp

lemma readUltrasonicSensors_frame [simp]:
  "currentState (readUltrasonicSensors t inp s) = currentState s"
  "stateStartTime (readUltrasonicSensors t inp s) = stateStartTime s"
  "pushStartTime (readUltrasonicSensors t inp s) = pushStartTime s"
  "lastEnemyDistance (readUltrasonicSensors t inp s) = lastEnemyDistance s"
  "hwLog (readUltrasonicSensors t inp s) = hwLog s"
  "borderFrontRight (readUltrasonicSensors t inp s) = borderFrontRight s"
  "borderFrontLeft (readUltrasonicSensors t inp s) = borderFrontLeft s"
  "borderRight (readUltrasonicSensors t inp s) = borderRight s"
  "borderLeft (readUltrasonicSensors t inp s) = borderLeft s"
  "borderBack (readUltrasonicSensors t inp s) = borderBack s"
  "borderDetected (readUltrasonicSensors t inp s) = borderDetected s"
  by (simp_all add: readUltrasonicSensors_def updateEnemyStatus_eq Let_def)

text \<open>After the sensor stage the enemy estimate is the one computed from the stored
  readings; without a reading in range the direction is the previous one.\<close>

lemma readUltrasonicSensors_estimate:
  assumes u: "u = readUltrasonicSensors t inp s"
  shows "enemyDetected u = (inEnemyRange (distanceFront u) \<or> inEnemyRange (distanceLeft u) \<or>
                            inEnemyRange (distanceRight u))"
    and "enemyDirection u =
          (if inEnemyRange (distanceFront u) then 0
           else if inEnemyRange (distanceLeft u) \<and> \<not> inEnemyRange (distanceRight u) then - 1
           else if inEnemyRange (distanceRight u) \<and> \<not> inEnemyRange (distanceLeft u) then 1
           else if inEnemyRange (distanceLeft u) \<and> inEnemyRange (distanceRight u)
                then (if distanceLeft u < distanceRight u then - 1 else 1)
           else enemyDirection s)"
  unfolding u
  by (simp_all add: readUltrasonicSensors_def updateEnemyStatus_eq Let_def)

subsection \<open>Handlers and dispatch\<close>

lemmas handler_defs = executeOpeningMove_def executeSearch_def executeAttack_def
  executePush_def executeBorderEscape_def

text \<open>No handler touches the sensor snapshot or the enemy estimate.\<close>

lemma dispatch_frame [simp]:
  "distanceFront (dispatch t inp s) = distanceFront s"
  "distanceLeft (dispatch t inp s) = distanceLeft s"
  "distanceRight (dispatch t inp s) = distanceRight s"
  "enemyDetected (dispatch t inp s) = enemyDetected s"
  "enemyDirection (dispatch t inp s) = enemyDirection s"
  "borderFrontRight (dispatch t inp s) = borderFrontRight s"
  "borderFrontLeft (dispatch t inp s) = borderFrontLeft s"
  "borderRight (dispatch t inp s) = borderRight s"
  "borderLeft (dispatch t inp s) = borderLeft s"
  "borderBack (dispatch t inp s) = borderBack s"
  "borderDetected (dispatch t inp s) = borderDetected s"
  by (cases "currentState s";
      simp add: dispatch_def handler_defs drive_defs Let_def sel_if
        split del: if_split cong del: if_weak_cong)+

lemma dispatch_at:
  "currentState s = STATE_INIT \<Longrightarrow> dispatch t inp s = s"
  "currentState s = STATE_OPENING_MOVE \<Longrightarrow> dispatch t inp s = executeOpeningMove t s"
  "currentState s = STATE_SEARCH \<Longrightarrow> dispatch t inp s = executeSearch t s"
  "currentState s = STATE_ATTACK \<Longrightarrow> dispatch t inp s = executeAttack t s"
  "currentState s = STATE_PUSH \<Longrightarrow> dispatch t inp s = executePush t s"
  "currentState s = STATE_BORDER_ESCAPE \<Longrightarrow> dispatch t inp s = executeBorderEscape t inp s"
  by (simp_all add: dispatch_def)

lemma loop_sensed: "loop inp s = dispatch (millis inp) inp (sensed inp s)"
  by (simp add: loop_def sensed_def Let_def)

lemma sensed_state:
  "currentState (sensed inp s) =
     (if borderDetected (readAllIRSensors inp s) \<and> currentState s \<noteq> STATE_BORDER_ESCAPE
      then STATE_BORDER_ESCAPE else currentState s)"
  "stateStartTime (sensed inp s) =
     (if borderDetected (readAllIRSensors inp s) \<and> currentState s \<noteq> STATE_BORDER_ESCAPE
      then millis inp else stateStartTime s)"
  by (simp_all add: sensed_def borderPriority_def)

lemma sensed_frame [simp]:
  "pushStartTime (sensed inp s) = pushStartTime s"
  "lastEnemyDistance (sensed inp s) = lastEnemyDistance s"
  "hwLog (sensed inp s) = hwLog s"
  "borderFrontRight (sensed inp s) = borderFrontRight (readAllIRSensors inp s)"
  "borderFrontLeft (sensed inp s) = borderFrontLeft (readAllIRSensors inp s)"
  "borderRight (sensed inp s) = borderRight (readAllIRSensors inp s)"
  "borderLeft (sensed inp s) = borderLeft (readAllIRSensors inp s)"
  "borderBack (sensed inp s) = borderBack (readAllIRSensors inp s)"
  "borderDetected (sensed inp s) = borderDetected (readAllIRSensors inp s)"
  by (simp_all add: sensed_def)

text \<open>The snapshot and the estimate a tick ends with are those its handler saw.\<close>

lemma loop_snapshot:
  "distanceFront (loop inp s) = distanceFront (sensed inp s)"
  "distanceLeft (loop inp s) = distanceLeft (sensed inp s)"
  "distanceRight (loop inp s) = distanceRight (sensed inp s)"
  "enemyDetected (loop inp s) = enemyDetected (sensed inp s)"
  "enemyDirection (loop inp s) = enemyDirection (sensed inp s)"
  "borderDetected (loop inp s) = borderDetected (readAllIRSensors inp s)"
  by (simp_all add: loop_sensed)

lemma sensed_estimate:
  "enemyDetected (sensed inp s) =
     (inEnemyRange (distanceFront (sensed inp s)) \<or> inEnemyRange (distanceLeft (sensed inp s)) \<or>
      inEnemyRange (distanceRight (sensed inp s)))"
  "enemyDirection (sensed inp s) =
     (if inEnemyRange (distanceFront (sensed inp s)) then 0
      else if inEnemyRange (distanceLeft (sensed inp s)) \<and>
              \<not> inEnemyRange (distanceRight (sensed inp s)) then - 1
      else if inEnemyRange (distanceRight (sensed inp s)) \<and>
              \<not> inEnemyRange (distanceLeft (sensed inp s)) then 1
      else if inEnemyRange (distanceLeft (sensed inp s)) \<and>
              inEnemyRange (distanceRight (sensed inp s))
           then (if distanceLeft (sensed inp s) < distanceRight (sensed inp s) then - 1 else 1)
      else enemyDirection s)"
  using readUltrasonicSensors_estimate [of "sensed inp s" "millis inp" inp
      "borderPriority (millis inp) (readAllIRSensors inp s)"]
  by (simp_all add: sensed_def)

lemma escape_fresh:
  assumes "stateStartTime s = t"
  shows "currentState (executeBorderEscape t inp s) = currentState s"
    and "stateStartTime (executeBorderEscape t inp s) = t"
  using assms
  by (simp_all add: executeBorderEscape_def Let_def drive_defs sel_if
        split del: if_split cong del: if_weak_cong)

lemma escape_no_zone:
  assumes "\<not> borderFrontRight s" "\<not> borderFrontLeft s" "\<not> borderRight s" "\<not> borderLeft s"
    "\<not> borderBack s"
  shows "executeBorderEscape t inp s = s"
  using assms by (simp add: executeBorderEscape_def)

text \<open>The "clear" test of the escape handler sits inside the branch of a set flag: with
  the aggregate flag as \<open>readAllIRSensors\<close> computes it, the handler never leaves the state.\<close>

lemma escape_keeps_state:
  assumes "borderDetected s =
     (borderFrontRight s \<or> borderFrontLeft s \<or> borderRight s \<or> borderLeft s \<or> borderBack s)"
  shows "currentState (executeBorderEscape t inp s) = currentState s"
proof (cases "borderDetected s")
  case True
  then show ?thesis
    by (simp add: executeBorderEscape_def Let_def drive_defs sel_if
        split del: if_split cong del: if_weak_cong)
next
  case False
  with assms show ?thesis by (simp add: escape_no_zone)
qed

lemma loop_escape_absorbing:
  assumes "currentState s = STATE_BORDER_ESCAPE"
  shows "currentState (loop inp s) = STATE_BORDER_ESCAPE"
proof -
  let ?u = "sensed inp s"
  have st: "currentState ?u = STATE_BORDER_ESCAPE"
    using assms by (simp add: sensed_state)
  have "borderDetected ?u =
     (borderFrontRight ?u \<or> borderFrontLeft ?u \<or> borderRight ?u \<or> borderLeft ?u \<or>
      borderBack ?u)"
    by (simp add: readAllIRSensors_detected)
  then have "currentState (executeBorderEscape (millis inp) inp ?u) = currentState ?u"
    by (rule escape_keeps_state)
  then show ?thesis by (simp add: loop_sensed dispatch_at st)
qed

text \<open>A tick that sees a border outside the escape state ends in the escape state,
  entered at the time of the tick.\<close>

lemma loop_border_fires:
  assumes "borderDetected (readAllIRSensors inp s)"
    and "currentState s \<noteq> STATE_BORDER_ESCAPE"
  shows "currentState (loop inp s) = STATE_BORDER_ESCAPE"
    and "stateStartTime (loop inp s) = millis inp"
proof -
  let ?t = "millis inp"
  let ?u = "sensed inp s"
  have u: "currentState ?u = STATE_BORDER_ESCAPE" "stateStartTime ?u = ?t"
    using assms by (simp_all add: sensed_state)
  have l: "loop inp s = executeBorderEscape ?t inp ?u"
    by (simp add: loop_sensed dispatch_at u)
  show "currentState (loop inp s) = STATE_BORDER_ESCAPE"
    using escape_fresh(1) [OF u(2), of inp] by (simp add: l u)
  show "stateStartTime (loop inp s) = millis inp"
    using escape_fresh(2) [OF u(2), of inp] by (simp add: l)
qed

subsection \<open>Evaluation of concrete runs\<close>

lemmas eval_defs = booted_def tick_def setup_robot_def initial_robot_def loop_def
  readAllIRSensors_def borderPriority_def readUltrasonicSensors_def readUltrasonic_def
  updateEnemyStatus_def dispatch_def executeOpeningMove_def executeSearch_def
  executeAttack_def executePush_def executeBorderEscape_def
  stopMotors_def moveForward_def moveBackward_def rotateClockwise_def
  rotateCounterClockwise_def setMotors_def analogWrite_def delay_def Let_def

section \<open>Priority of the border rule\<close>

text \<open>
  C1. On every tick, if one of the five border flags is set once the border sensors
  have been read and the state is not \<open>STATE_BORDER_ESCAPE\<close>, then the priority rule puts
  the robot in \<open>STATE_BORDER_ESCAPE\<close> and sets the state-entry time to the time of the
  tick, and this is still so at the end of the tick: the range readings of the tick and
  the handler that runs afterwards do not change it.
\<close>

theorem border_priority_overrides:
  assumes flag: "borderFrontRight (readAllIRSensors inp s) \<or>
                 borderFrontLeft (readAllIRSensors inp s) \<or>
                 borderRight (readAllIRSensors inp s) \<or>
                 borderLeft (readAllIRSensors inp s) \<or>
                 borderBack (readAllIRSensors inp s)"
    and st: "currentState s \<noteq> STATE_BORDER_ESCAPE"
  shows "currentState (borderPriority (millis inp) (readAllIRSensors inp s)) = STATE_BORDER_ESCAPE
       \<and> stateStartTime (borderPriority (millis inp) (readAllIRSensors inp s)) = millis inp
       \<and> currentState (loop inp s) = STATE_BORDER_ESCAPE
       \<and> stateStartTime (loop inp s) = millis inp"
proof -
  let ?t = "millis inp"
  let ?s1 = "readAllIRSensors inp s"
  have det: "borderDetected ?s1"
    using flag by (simp only: readAllIRSensors_detected)
  have p: "borderPriority ?t ?s1 = ?s1\<lparr> currentState := STATE_BORDER_ESCAPE, stateStartTime := ?t \<rparr>"
    using det st by (simp add: borderPriority_fires)
  show ?thesis
    using loop_border_fires [OF det st] by (simp add: p)
qed

theorem border_priority_overrides_witness:
  "borderBack (readAllIRSensors ((tick 7000 25 0 0)\<lparr> irBack := 900 \<rparr>)
       (booted\<lparr> currentState := STATE_PUSH \<rparr>))
   \<and> currentState (booted\<lparr> currentState := STATE_PUSH \<rparr>) \<noteq> STATE_BORDER_ESCAPE
   \<and> currentState (loop ((tick 7000 25 0 0)\<lparr> irBack := 900 \<rparr>)
         (booted\<lparr> currentState := STATE_PUSH \<rparr>)) = STATE_BORDER_ESCAPE
   \<and> stateStartTime (loop ((tick 7000 25 0 0)\<lparr> irBack := 900 \<rparr>)
         (booted\<lparr> currentState := STATE_PUSH \<rparr>)) = 7000"
proof -
  have a: "borderBack (readAllIRSensors ((tick 7000 25 0 0)\<lparr> irBack := 900 \<rparr>)
       (booted\<lparr> currentState := STATE_PUSH \<rparr>))"
    by (simp add: readAllIRSensors_def tick_def)
  have b: "currentState (booted\<lparr> currentState := STATE_PUSH \<rparr>) \<noteq> STATE_BORDER_ESCAPE"
    by simp
  have c: "millis ((tick 7000 25 0 0)\<lparr> irBack := 900 \<rparr>) = 7000"
    by (simp add: tick_def)
  show ?thesis
    using border_priority_overrides [of "(tick 7000 25 0 0)\<lparr> irBack := 900 \<rparr>"
        "booted\<lparr> currentState := STATE_PUSH \<rparr>"] a b c
    by simp
qed

section \<open>An escape with no flag set\<close>

text \<open>
  C10. If on a tick in \<open>STATE_BORDER_ESCAPE\<close> all five border flags read clear, no zone is
  classified: the handler issues no drive command and makes no transition. The state
  stays \<open>STATE_BORDER_ESCAPE\<close>, the state-entry time is unchanged and nothing is written
  to the motor channels, whatever the time of the tick.
\<close>

theorem escape_idle_when_clear:
  assumes "currentState s = STATE_BORDER_ESCAPE"
    and "\<not> borderFrontRight (readAllIRSensors inp s)"
    and "\<not> borderFrontLeft (readAllIRSensors inp s)"
    and "\<not> borderRight (readAllIRSensors inp s)"
    and "\<not> borderLeft (readAllIRSensors inp s)"
    and "\<not> borderBack (readAllIRSensors inp s)"
  shows "currentState (loop inp s) = STATE_BORDER_ESCAPE
       \<and> stateStartTime (loop inp s) = stateStartTime s
       \<and> hwLog (loop inp s) = hwLog s"
proof -
  let ?u = "sensed inp s"
  have u: "currentState ?u = STATE_BORDER_ESCAPE" "stateStartTime ?u = stateStartTime s"
    using assms(1) by (simp_all add: sensed_state)
  have "executeBorderEscape (millis inp) inp ?u = ?u"
    using assms(2-6) by (simp add: escape_no_zone)
  then have "loop inp s = ?u"
    by (simp add: loop_sensed dispatch_at u)
  then show ?thesis using u by simp
qed

theorem escape_idle_when_clear_witness:
  "currentState (booted\<lparr> currentState := STATE_BORDER_ESCAPE \<rparr>) = STATE_BORDER_ESCAPE
   \<and> \<not> borderFrontRight (readAllIRSensors (tick 60000 0 0 0)
           (booted\<lparr> currentState := STATE_BORDER_ESCAPE \<rparr>))
   \<and> currentState (loop (tick 60000 0 0 0) (booted\<lparr> currentState := STATE_BORDER_ESCAPE \<rparr>))
       = STATE_BORDER_ESCAPE
   \<and> stateStartTime (loop (tick 60000 0 0 0) (booted\<lparr> currentState := STATE_BORDER_ESCAPE \<rparr>))
       = 5000
   \<and> hwLog (loop (tick 60000 0 0 0) (booted\<lparr> currentState := STATE_BORDER_ESCAPE \<rparr>))
       = hwLog booted"
proof -
  have f: "\<not> borderFrontRight (readAllIRSensors (tick 60000 0 0 0)
           (booted\<lparr> currentState := STATE_BORDER_ESCAPE \<rparr>))"
    "\<not> borderFrontLeft (readAllIRSensors (tick 60000 0 0 0)
           (booted\<lparr> currentState := STATE_BORDER_ESCAPE \<rparr>))"
    "\<not> borderRight (readAllIRSensors (tick 60000 0 0 0)
           (booted\<lparr> currentState := STATE_BORDER_ESCAPE \<rparr>))"
    "\<not> borderLeft (readAllIRSensors (tick 60000 0 0 0)
           (booted\<lparr> currentState := STATE_BORDER_ESCAPE \<rparr>))"
    "\<not> borderBack (readAllIRSensors (tick 60000 0 0 0)
           (booted\<lparr> currentState := STATE_BORDER_ESCAPE \<rparr>))"
    by (simp_all add: readAllIRSensors_def tick_def)
  have t: "stateStartTime booted = 5000"
    by (simp add: booted_def setup_robot_def tick_def Let_def)
  show ?thesis
    using escape_idle_when_clear [of "booted\<lparr> currentState := STATE_BORDER_ESCAPE \<rparr>"
        "tick 60000 0 0 0"] f t
    by simp
qed

section \<open>The enemy estimate\<close>

text \<open>
  C9. On every tick on which the stored left and right readings are both in the valid
  target range and the stored front reading is not, the enemy direction computed on that
  tick is the side with the smaller reading: left (\<open>-1\<close>) when
  \<open>distanceLeft < distanceRight\<close>, otherwise right (\<open>1\<close>).
\<close>

theorem flank_tie_break_nearer:
  assumes "\<not> (ENEMY_MIN \<le> distanceFront (loop inp s) \<and> distanceFront (loop inp s) \<le> ENEMY_FAR)"
    and "ENEMY_MIN \<le> distanceLeft (loop inp s) \<and> distanceLeft (loop inp s) \<le> ENEMY_FAR"
    and "ENEMY_MIN \<le> distanceRight (loop inp s) \<and> distanceRight (loop inp s) \<le> ENEMY_FAR"
  shows "enemyDirection (loop inp s) =
           (if distanceLeft (loop inp s) < distanceRight (loop inp s) then - 1 else 1)"
proof -
  let ?u = "sensed inp s"
  have f: "\<not> inEnemyRange (distanceFront ?u)"
    using assms(1) by (simp add: inEnemyRange_def loop_snapshot)
  have l: "inEnemyRange (distanceLeft ?u)"
    using assms(2) by (simp add: inEnemyRange_def loop_snapshot)
  have r: "inEnemyRange (distanceRight ?u)"
    using assms(3) by (simp add: inEnemyRange_def loop_snapshot)
  have "enemyDirection ?u = (if distanceLeft ?u < distanceRight ?u then - 1 else 1)"
    by (subst sensed_estimate(2)) (simp add: f l r)
  then show ?thesis by (simp add: loop_snapshot)
qed

theorem flank_tie_break_nearer_witness:
  "distanceFront (loop (tick 6300 0 60 90) booted) = 999
   \<and> distanceLeft (loop (tick 6300 0 60 90) booted) = 60
   \<and> distanceRight (loop (tick 6300 0 60 90) booted) = 90
   \<and> enemyDirection (loop (tick 6300 0 60 90) booted) = - 1"
proof -
  have d: "distanceFront (loop (tick 6300 0 60 90) booted) = 999"
    "distanceLeft (loop (tick 6300 0 60 90) booted) = 60"
    "distanceRight (loop (tick 6300 0 60 90) booted) = 90"
    by (simp_all add: eval_defs)
  show ?thesis
    using flank_tie_break_nearer [of "tick 6300 0 60 90" booted] d
    by simp
qed

text \<open>
  C8, as the sketch has it. \<open>enemyDetected\<close> and \<open>enemyDirection\<close> are globals that
  \<open>updateEnemyStatus\<close> rewrites on every tick. The presence flag depends on the three
  stored readings only, and so does the direction whenever the enemy is present. When no
  reading is in range, no branch assigns the direction and it keeps the value it had
  before the tick.
\<close>

theorem enemy_estimate_from_readings:
  assumes "distanceFront (loop i s) = distanceFront (loop j r)"
    and "distanceLeft (loop i s) = distanceLeft (loop j r)"
    and "distanceRight (loop i s) = distanceRight (loop j r)"
  shows "enemyDetected (loop i s) = enemyDetected (loop j r)
       \<and> (enemyDetected (loop i s) \<longrightarrow> enemyDirection (loop i s) = enemyDirection (loop j r))
       \<and> (\<not> enemyDetected (loop i s) \<longrightarrow> enemyDirection (loop i s) = enemyDirection s)"
proof -
  let ?u = "sensed i s" and ?v = "sensed j r"
  have eq: "distanceFront ?u = distanceFront ?v" "distanceLeft ?u = distanceLeft ?v"
    "distanceRight ?u = distanceRight ?v"
    using assms by (simp_all add: loop_snapshot)
  have det: "enemyDetected ?u = enemyDetected ?v"
    by (subst sensed_estimate(1), subst sensed_estimate(1) [of j r]) (simp add: eq)
  have dir: "enemyDirection ?u = enemyDirection ?v" if "enemyDetected ?u"
  proof -
    from that have "inEnemyRange (distanceFront ?v) \<or> inEnemyRange (distanceLeft ?v) \<or>
        inEnemyRange (distanceRight ?v)"
      by (simp add: sensed_estimate(1) [of i s] eq)
    then show ?thesis
      by (subst sensed_estimate(2), subst sensed_estimate(2) [of j r]) (auto simp add: eq)
  qed
  have keep: "enemyDirection ?u = enemyDirection s" if "\<not> enemyDetected ?u"
  proof -
    from that have "\<not> inEnemyRange (distanceFront ?u)" "\<not> inEnemyRange (distanceLeft ?u)"
      "\<not> inEnemyRange (distanceRight ?u)"
      by (simp_all add: sensed_estimate(1) [of i s])
    then show ?thesis by (subst sensed_estimate(2)) simp
  qed
  show ?thesis using det dir keep by (simp add: loop_snapshot)
qed

theorem enemy_estimate_from_readings_witness:
  "distanceLeft (loop (tick 6300 0 60 90) booted) = distanceLeft (loop (tick 9000 0 60 90) booted)
   \<and> enemyDetected (loop (tick 6300 0 60 90) booted)
   \<and> enemyDirection (loop (tick 6300 0 60 90) booted)
       = enemyDirection (loop (tick 9000 0 60 90) booted)"
proof -
  have d: "distanceFront (loop (tick 6300 0 60 90) booted) = distanceFront (loop (tick 9000 0 60 90) booted)"
    "distanceLeft (loop (tick 6300 0 60 90) booted) = distanceLeft (loop (tick 9000 0 60 90) booted)"
    "distanceRight (loop (tick 6300 0 60 90) booted) = distanceRight (loop (tick 9000 0 60 90) booted)"
    by (simp_all add: eval_defs)
  have e: "enemyDetected (loop (tick 6300 0 60 90) booted)"
    by (simp add: eval_defs)
  show ?thesis
    using enemy_estimate_from_readings [of "tick 6300 0 60 90" booted "tick 9000 0 60 90" booted] d e
    by simp
qed

text \<open>
  C8 as stated fails: two ticks with the same three stored readings, none in range, and
  different directions. In the first run a target seen on the left at 6300 ms is gone at
  6500 ms; in the second nothing was ever seen.
\<close>

theorem enemy_direction_persists_counterexample:
  "distanceFront (run booted [tick 6300 0 100 0, tick 6500 0 0 0]) = 999
   \<and> distanceLeft (run booted [tick 6300 0 100 0, tick 6500 0 0 0]) = 999
   \<and> distanceRight (run booted [tick 6300 0 100 0, tick 6500 0 0 0]) = 999
   \<and> enemyDirection (run booted [tick 6300 0 100 0, tick 6500 0 0 0]) = - 1
   \<and> distanceFront (run booted [tick 6300 0 0 0, tick 6500 0 0 0]) = 999
   \<and> distanceLeft (run booted [tick 6300 0 0 0, tick 6500 0 0 0]) = 999
   \<and> distanceRight (run booted [tick 6300 0 0 0, tick 6500 0 0 0]) = 999
   \<and> enemyDirection (run booted [tick 6300 0 0 0, tick 6500 0 0 0]) = 0"
  by (simp add: eval_defs)

section \<open>Values written to the drive channels\<close>

lemma dispatch_log_withinMax:
  assumes "list_all withinMax (hwLog s)"
  shows "list_all withinMax (hwLog (dispatch t inp s))"
  using assms
  by (cases "currentState s";
      simp add: dispatch_def handler_defs drive_defs motorWrites_def Let_def sel_if
        if_distrib [of "list_all withinMax"]
        split del: if_split cong del: if_weak_cong)+

text \<open>
  C7, as the sketch has it. \<open>setMotors\<close> does not clamp: each wheel's requested magnitude
  is written unchanged to the channel of its direction and 0 to the opposite channel.
  This is stated for the speeds the sketch can receive and negate: a 16-bit \<open>int\<close> other
  than the least one, that is \<open>-32767 .. 32767\<close> (at \<open>-32768\<close> the negation in the
  sketch overflows, which the unbounded \<open>int\<close> of the model does not show).
  The values stay within 0..255 because every speed a control-loop tick requests is one
  of the configured constants: if all earlier writes are within the maximum, so are all
  writes after the tick.
\<close>

theorem drive_writes_unclamped_loop_bounded:
  assumes "- 32768 < l" and "l \<le> 32767"
    and "- 32768 < r" and "r \<le> 32767"
    and "- 32768 < v" and "v \<le> 32767"
  shows "hwLog (setMotors l r s) = hwLog s @ motorWrites l r
   \<and> hwLog (stopMotors s) = hwLog s @ motorWrites 0 0
   \<and> hwLog (moveForward v s) = hwLog s @ motorWrites v v
   \<and> hwLog (moveBackward v s) = hwLog s @ motorWrites (- v) (- v)
   \<and> hwLog (rotateClockwise v s) = hwLog s @ motorWrites v (- v)
   \<and> hwLog (rotateCounterClockwise v s) = hwLog s @ motorWrites (- v) v
   \<and> (list_all withinMax (hwLog s) \<longrightarrow> list_all withinMax (hwLog (loop inp s)))"
  by (simp add: drive_defs loop_sensed dispatch_log_withinMax)

theorem drive_writes_unclamped_loop_bounded_witness:
  "- 32768 < (200 :: int) \<and> (200 :: int) \<le> 32767
   \<and> - 32768 < (- 200 :: int) \<and> (- 200 :: int) \<le> 32767
   \<and> - 32768 < (255 :: int) \<and> (255 :: int) \<le> 32767
   \<and> hwLog (setMotors 200 (- 200) booted) = hwLog booted @ motorWrites 200 (- 200)
   \<and> hwLog (moveBackward 255 booted) = hwLog booted @ motorWrites (- 255) (- 255)
   \<and> list_all withinMax (hwLog booted)
   \<and> list_all withinMax (hwLog (loop (tick 5100 0 0 0) booted))
   \<and> hwLog (loop (tick 5100 0 0 0) booted) = hwLog booted @ motorWrites 255 (- 255)"
proof -
  have a: "list_all withinMax (hwLog booted)"
    by (simp add: eval_defs)
  have b: "hwLog (loop (tick 5100 0 0 0) booted) = hwLog booted @ motorWrites 255 (- 255)"
    by (simp add: eval_defs motorWrites_def)
  have h: "- 32768 < (200 :: int)" "(200 :: int) \<le> 32767"
    "- 32768 < (- 200 :: int)" "(- 200 :: int) \<le> 32767"
    "- 32768 < (255 :: int)" "(255 :: int) \<le> 32767"
    by simp_all
  show ?thesis
    using drive_writes_unclamped_loop_bounded [OF h, of booted "tick 5100 0 0 0"] a b
    by simp
qed

text \<open>
  C7 as stated fails: a request of 300 reaches \<open>analogWrite\<close> as 300 on both forward
  channels.
\<close>

theorem setMotors_no_clamp_counterexample:
  "hwLog (moveForward 300 initial_robot) =
     [AnalogWrite MOTOR_LEFT_FWD 300, AnalogWrite MOTOR_LEFT_BACK 0,
      AnalogWrite MOTOR_RIGHT_FWD 300, AnalogWrite MOTOR_RIGHT_BACK 0]
   \<and> \<not> list_all withinMax (hwLog (moveForward 300 initial_robot))"
  by (simp add: moveForward_def setMotors_def analogWrite_def initial_robot_def)

section \<open>Attack\<close>

lemma executeAttack_push:
  assumes "\<not> ((\<not> enemyDetected s \<or> distanceFront s > ENEMY_LOST) \<and> t - stateStartTime s > 1000)"
    and "distanceFront s \<le> ENEMY_CLOSE"
  shows "executeAttack t s =
           s\<lparr> currentState := STATE_PUSH, stateStartTime := t, pushStartTime := t \<rparr>"
  using assms by (auto simp add: executeAttack_def Let_def)

lemma executeAttack_arc:
  assumes "\<not> ((\<not> enemyDetected s \<or> distanceFront s > ENEMY_LOST) \<and> t - stateStartTime s > 1000)"
    and "ENEMY_CLOSE < distanceFront s"
  shows "executeAttack t s =
           (if distanceFront s > ENEMY_MEDIUM
            then s\<lparr> hwLog := hwLog s @ motorWrites SPEED_ARC_INNER SPEED_ARC_OUTER \<rparr>
            else s\<lparr> hwLog := hwLog s @ motorWrites SPEED_CLOSE_INNER SPEED_CLOSE_OUTER \<rparr>)"
  using assms by (auto simp add: executeAttack_def Let_def setMotors_eq)

lemma executeAttack_lost:
  assumes "\<not> enemyDetected s \<or> distanceFront s > ENEMY_LOST"
    and "t - stateStartTime s > 1000"
  shows "executeAttack t s = s\<lparr> currentState := STATE_SEARCH, stateStartTime := t \<rparr>"
  using assms by (simp add: executeAttack_def Let_def)

text \<open>
  C5, as the sketch has it. On a tick in \<open>STATE_ATTACK\<close> with no border flag set and the
  target not deemed lost (not: enemy absent or frontal distance over 50 cm, with more
  than 1000 ms since the state was entered), where \<open>d\<close> is the stored frontal distance
  of the tick:
  \<^item> if \<open>d \<le> 30\<close> the state becomes \<open>STATE_PUSH\<close> and the push-start time and the
    state-entry time are set to the time of the tick; no drive command is issued and
    \<open>lastEnemyDistance\<close> is left as it was (the push handler records it on its own ticks);
  \<^item> if \<open>30 < d\<close> the state stays \<open>STATE_ATTACK\<close> and one arc is driven: the far-band pair
    (153, 230) when \<open>d > 80\<close>, the closing pair (165, 204) when \<open>d \<le> 80\<close>.
\<close>

theorem attack_thresholds:
  assumes "currentState s = STATE_ATTACK"
    and "\<not> borderDetected (readAllIRSensors inp s)"
    and "\<not> ((\<not> enemyDetected (loop inp s) \<or> distanceFront (loop inp s) > ENEMY_LOST)
            \<and> millis inp - stateStartTime s > 1000)"
  shows "(distanceFront (loop inp s) \<le> ENEMY_CLOSE \<longrightarrow>
            currentState (loop inp s) = STATE_PUSH
          \<and> pushStartTime (loop inp s) = millis inp
          \<and> stateStartTime (loop inp s) = millis inp
          \<and> lastEnemyDistance (loop inp s) = lastEnemyDistance s
          \<and> hwLog (loop inp s) = hwLog s)
       \<and> (ENEMY_CLOSE < distanceFront (loop inp s) \<longrightarrow>
            currentState (loop inp s) = STATE_ATTACK
          \<and> stateStartTime (loop inp s) = stateStartTime s
          \<and> hwLog (loop inp s) = hwLog s @
               (if distanceFront (loop inp s) > ENEMY_MEDIUM
                then motorWrites SPEED_ARC_INNER SPEED_ARC_OUTER
                else motorWrites SPEED_CLOSE_INNER SPEED_CLOSE_OUTER))"
proof -
  let ?t = "millis inp"
  let ?u = "sensed inp s"
  have u: "currentState ?u = STATE_ATTACK" "stateStartTime ?u = stateStartTime s"
    using assms(1,2) by (simp_all add: sensed_state)
  have l: "loop inp s = executeAttack ?t ?u"
    by (simp add: loop_sensed dispatch_at u)
  have held: "\<not> ((\<not> enemyDetected ?u \<or> distanceFront ?u > ENEMY_LOST)
                 \<and> ?t - stateStartTime ?u > 1000)"
    using assms(3) by (simp add: loop_snapshot u)
  have d: "distanceFront (loop inp s) = distanceFront ?u"
    by (simp add: loop_snapshot)
  show ?thesis
  proof (cases "distanceFront ?u \<le> ENEMY_CLOSE")
    case True
    then show ?thesis
      by (simp add: d l executeAttack_push [OF held True])
  next
    case False
    then have far: "ENEMY_CLOSE < distanceFront ?u" by simp
    show ?thesis
      using False u by (simp add: d l executeAttack_arc [OF held far])
  qed
qed

theorem attack_thresholds_witness:
  "currentState (run booted [tick 6300 100 0 0, tick 6400 100 0 0]) = STATE_ATTACK
   \<and> distanceFront (loop (tick 6500 100 0 0) (run booted [tick 6300 100 0 0, tick 6400 100 0 0])) = 100
   \<and> currentState (loop (tick 6500 100 0 0) (run booted [tick 6300 100 0 0, tick 6400 100 0 0]))
       = STATE_ATTACK
   \<and> hwLog (loop (tick 6500 100 0 0) (run booted [tick 6300 100 0 0, tick 6400 100 0 0]))
       = hwLog (run booted [tick 6300 100 0 0, tick 6400 100 0 0]) @ motorWrites 153 230"
proof -
  let ?s = "run booted [tick 6300 100 0 0, tick 6400 100 0 0]"
  have s: "currentState ?s = STATE_ATTACK" "stateStartTime ?s = 6400"
    by (simp_all add: eval_defs)
  have b: "\<not> borderDetected (readAllIRSensors (tick 6500 100 0 0) ?s)"
    by (simp add: readAllIRSensors_def tick_def)
  have t: "millis (tick 6500 100 0 0) = 6500"
    by (simp add: tick_def)
  have d: "distanceFront (loop (tick 6500 100 0 0) ?s) = 100"
    by (simp add: eval_defs)
  have h: "\<not> ((\<not> enemyDetected (loop (tick 6500 100 0 0) ?s)
               \<or> distanceFront (loop (tick 6500 100 0 0) ?s) > ENEMY_LOST)
            \<and> millis (tick 6500 100 0 0) - stateStartTime ?s > 1000)"
    using s(2) t by simp
  show ?thesis
    using attack_thresholds [OF s(1) b h] s(1) d by simp
qed

text \<open>
  C5 as stated fails in one point: entering \<open>STATE_PUSH\<close> records the push-start time but
  not the last-observed distance. The frontal reading is 25 cm when the push starts at
  6500 ms and \<open>lastEnemyDistance\<close> still holds its initial 999.
\<close>

theorem attack_to_push_distance_counterexample:
  "trace booted [tick 6300 25 0 0, tick 6400 25 0 0, tick 6500 25 0 0]
     = [STATE_SEARCH, STATE_ATTACK, STATE_PUSH]
   \<and> pushStartTime (run booted [tick 6300 25 0 0, tick 6400 25 0 0, tick 6500 25 0 0]) = 6500
   \<and> distanceFront (run booted [tick 6300 25 0 0, tick 6400 25 0 0, tick 6500 25 0 0]) = 25
   \<and> lastEnemyDistance (run booted [tick 6300 25 0 0, tick 6400 25 0 0, tick 6500 25 0 0]) = 999"
  by (simp add: eval_defs)

section \<open>Push and deadlock recovery\<close>










lemma executePush_in_window:
  assumes "\<not> t - pushStartTime s > DEADLOCK_TIME"
  shows "currentState (executePush t s) = STATE_SEARCH \<or>
         currentState (executePush t s) = currentState s"
  using assms
  by (simp add: executePush_def Let_def drive_defs sel_if
        split del: if_split cong del: if_weak_cong) simp

text \<open>Inside the deadlock window a tick that starts in \<open>STATE_PUSH\<close> never ends in
  \<open>STATE_ATTACK\<close>, whatever the sensors read.\<close>

lemma push_never_attack_in_window:
  assumes "currentState s = STATE_PUSH"
    and "millis inp - pushStartTime s \<le> DEADLOCK_TIME"
  shows "currentState (loop inp s) \<noteq> STATE_ATTACK"
proof (cases "borderDetected (readAllIRSensors inp s)")
  case True
  then have "currentState (loop inp s) = STATE_BORDER_ESCAPE"
    using loop_border_fires(1) [of inp s] assms(1) by simp
  then show ?thesis by simp
next
  case False
  let ?u = "sensed inp s"
  have u: "currentState ?u = STATE_PUSH"
    using assms(1) False by (simp add: sensed_state)
  have w: "\<not> millis inp - pushStartTime ?u > DEADLOCK_TIME"
    using assms(2) by simp
  have "loop inp s = executePush (millis inp) ?u"
    by (simp add: loop_sensed dispatch_at u)
  then show ?thesis
    using executePush_in_window [OF w] u by auto
qed




section \<open>Where the sketch departs from its documentation\<close>

text \<open>
  C2. The claim says that once the escape maneuver has elapsed and the border sensors
  read clear, the state goes to \<open>STATE_SEARCH\<close>. The sketch does not: the test
  \<open>!borderDetected\<close> is nested inside the branch of a set flag, so it is never true
  there, and with all flags clear no branch runs (\<open>loop_escape_absorbing\<close>). In the run
  below the front-left sensor triggers at 6400 ms and is still triggered at 6700 ms;
  at 7100 ms, 700 ms after the escape began, all sensors are clear, and the state is
  still \<open>STATE_BORDER_ESCAPE\<close>; it is so at 20000 ms as well, with no motor command
  issued on the last two ticks.
\<close>

theorem escape_clear_stays_in_escape:
  "trace booted
     [tick 6300 0 0 0,
      (tick 6400 0 0 0)\<lparr> irFrontLeft := 800 \<rparr>,
      (tick 6700 0 0 0)\<lparr> irFrontLeft := 800 \<rparr>,
      tick 7100 0 0 0,
      tick 20000 0 0 0]
     = [STATE_SEARCH, STATE_BORDER_ESCAPE, STATE_BORDER_ESCAPE, STATE_BORDER_ESCAPE,
        STATE_BORDER_ESCAPE]
   \<and> hwLog (run booted
        [tick 6300 0 0 0,
         (tick 6400 0 0 0)\<lparr> irFrontLeft := 800 \<rparr>,
         (tick 6700 0 0 0)\<lparr> irFrontLeft := 800 \<rparr>,
         tick 7100 0 0 0,
         tick 20000 0 0 0])
     = hwLog (run booted
        [tick 6300 0 0 0,
         (tick 6400 0 0 0)\<lparr> irFrontLeft := 800 \<rparr>,
         (tick 6700 0 0 0)\<lparr> irFrontLeft := 800 \<rparr>])"
  by (simp add: eval_defs)

text \<open>
  C3. The claim says an invalid measurement leaves the stored distance at the prior valid
  reading. The sketch stores the value \<open>readUltrasonic\<close> returns, which is 999 for an
  invalid measurement. In the run below the three sensors read 40, 60 and 70 cm at
  6300 ms; at 6500 ms the front and left echoes time out and the right one is out of
  range (500 cm), and all three stored distances become 999.
\<close>

theorem invalid_reading_overwrites:
  "distanceFront (run booted [tick 6300 40 60 70]) = 40
   \<and> distanceLeft (run booted [tick 6300 40 60 70]) = 60
   \<and> distanceRight (run booted [tick 6300 40 60 70]) = 70
   \<and> distanceFront (run booted [tick 6300 40 60 70, tick 6500 0 0 500]) = 999
   \<and> distanceLeft (run booted [tick 6300 40 60 70, tick 6500 0 0 500]) = 999
   \<and> distanceRight (run booted [tick 6300 40 60 70, tick 6500 0 0 500]) = 999"
  by (simp add: eval_defs)

text \<open>
  C6. The claim says the return to \<open>STATE_SEARCH\<close> needs the target to have been lost for
  more than 1000 ms. The sketch compares 1000 ms with the time since \<open>STATE_ATTACK\<close> was
  entered (\<open>lostTime = currentMillis - stateStartTime\<close>). In the run below the attack
  starts at 6400 ms; at 8000 ms the target is present at 40 cm; at 8050 ms the reading
  is 60 cm, the first tick on which the target counts as lost, and the state goes to
  \<open>STATE_SEARCH\<close> at once.
\<close>

theorem attack_lost_without_grace:
  "trace booted [tick 6300 40 0 0, tick 6400 40 0 0, tick 8000 40 0 0, tick 8050 60 0 0]
     = [STATE_SEARCH, STATE_ATTACK, STATE_ATTACK, STATE_SEARCH]
   \<and> enemyDetected (run booted [tick 6300 40 0 0, tick 6400 40 0 0, tick 8000 40 0 0])
   \<and> distanceFront (run booted [tick 6300 40 0 0, tick 6400 40 0 0, tick 8000 40 0 0]) = 40
   \<and> stateStartTime (run booted [tick 6300 40 0 0, tick 6400 40 0 0, tick 8000 40 0 0]) = 6400
   \<and> distanceFront (run booted
        [tick 6300 40 0 0, tick 6400 40 0 0, tick 8000 40 0 0, tick 8050 60 0 0]) = 60"
  by (simp add: eval_defs)

end
